theory Spec2Isabelle
  imports Main "HOL-Library.Word"
begin

section \<open>Data model of Engine.h and Engine.cpp\<close>

text \<open>
  Pointers and handles (\<open>HMODULE\<close>, \<open>HANDLE\<close>, \<open>PVOID\<close>, \<open>PINDICIUM_ENGINE\<close>, function
  pointers) are natural numbers; \<open>0\<close> is the null pointer, which is what the tests
  \<open>if (!p)\<close> and \<open>p ? a : b\<close> of the source compare against. \<open>DWORD\<close> and \<open>UINT\<close> are 32-bit
  words. \<open>size_t\<close> is a natural number: no arithmetic is done on it.
\<close>

type_synonym addr = nat
type_synonym byte = "8 word"
type_synonym DWORD = "32 word"

text \<open>The error codes Engine.cpp returns (the enumeration is declared in IndiciumCore.h).\<close>

datatype INDICIUM_ERROR =
    INDICIUM_ERROR_NONE
  | INDICIUM_ERROR_INVALID_ENGINE_HANDLE
  | INDICIUM_ERROR_CREATE_THREAD_FAILED
  | INDICIUM_ERROR_ENGINE_ALLOCATION_FAILED
  | INDICIUM_ERROR_ENGINE_ALREADY_ALLOCATED
  | INDICIUM_ERROR_INVALID_HMODULE_HANDLE
  | INDICIUM_ERROR_REFERENCE_INCREMENT_FAILED
  | INDICIUM_ERROR_CONTEXT_ALLOCATION_FAILED

text \<open>
  \<open>INDICIUM_ENGINE_CONFIG\<close>, with the four members Engine.cpp and Engine.h read. The two
  callbacks are function pointers.
\<close>

record INDICIUM_ENGINE_CONFIG =
  EvtIndiciumGamePreExit :: addr
  EvtIndiciumGameHooked :: addr
  LogFilePath :: string
  EnableLogging :: bool

text \<open>
  A callback table (\<open>INDICIUM_D3D9_EVENT_CALLBACKS\<close> and its siblings) is a struct of
  function pointers, one member per event; the member name selects the slot.
\<close>

type_synonym callbacks = "string \<Rightarrow> addr"

text \<open>\<open>struct _INDICIUM_ENGINE\<close> of Engine.h, member by member.\<close>

record INDICIUM_ENGINE =
  HostInstance :: addr
  GameVersion :: nat
  EngineConfig :: INDICIUM_ENGINE_CONFIG
  EventsD3D9 :: callbacks
  EventsD3D10 :: callbacks
  EventsD3D11 :: callbacks
  EventsD3D12 :: callbacks
  EventsARC :: callbacks
  EngineThread :: addr
  EngineCancellationEvent :: addr
  CustomContext :: addr
  RenderPipeline :: addr
  CoreAudio :: addr

text \<open>Severity of a log line (spdlog's \<open>debug\<close>, \<open>info\<close> and \<open>error\<close> are the ones used here).\<close>

datatype level = debug | info | error

text \<open>
  How a function of Engine.cpp ends when it does not return: \<open>spdlog_ex\<close> is the exception
  \<open>spdlog::basic_logger_mt\<close> throws when a logger of the given name is registered already
  (Engine.cpp catches nothing, so it leaves the function); \<open>null_logger\<close> is the use of
  \<open>spdlog::get('indicium')->clone(..)\<close> when no logger of that name is registered, that is,
  a call through a null pointer, at which the process stops.
\<close>

datatype fault = spdlog_ex | null_logger

datatype 'a outcome = Returns 'a | Faults fault

text \<open>
  Every call that leaves Engine.cpp (operating system, C runtime, Detours, spdlog, a
  caller-supplied callback) is recorded, in program order, with the arguments the code
  passes. Apart from the two uses of spdlog above, such a call is taken to return; where
  the code reads its result, the result is an answer of the platform (below).
\<close>

datatype event =
    Ev_log string level string "DWORD list"
  | Ev_call addr "addr list"
  | Ev_SetEvent addr
  | Ev_WaitForSingleObject addr DWORD
  | Ev_TerminateThread addr DWORD
  | Ev_RealExitProcess DWORD
  | Ev_DetourRestoreAfterWith
  | Ev_DetourTransactionBegin
  | Ev_DetourUpdateThread
  | Ev_DetourAttach
  | Ev_DetourDetach
  | Ev_DetourTransactionCommit
  | Ev_GetModuleHandleEx addr
  | Ev_malloc nat addr
  | Ev_free addr
  | Ev_memcpy addr "byte list" nat
  | Ev_CreateEvent addr
  | Ev_CreateThread addr addr
  | Ev_CloseHandle addr
  | Ev_basic_logger_mt string string
  | Ev_set_level level
  | Ev_flush_on level
  | Ev_set_default_logger
  | Ev_flush

text \<open>
  The process state the functions of Engine.cpp read and write: the registry
  \<open>g_EngineHostInstances\<close> (a \<open>std::map\<close>, kept as a list of pairs in ascending key order,
  the order in which a range-for visits it), the memory holding engine structs (read
  through a \<open>PINDICIUM_ENGINE\<close>), the live blocks obtained from \<open>malloc\<close> for custom
  contexts, whether spdlog's registry holds a logger named \<open>indicium\<close> (Engine.cpp registers
  it with \<open>basic_logger_mt\<close>, looks it up with \<open>spdlog::get\<close> and never drops it), and the
  record of outside calls made so far.
\<close>

record state =
  g_EngineHostInstances :: "(addr \<times> addr) list"
  engines :: "addr \<Rightarrow> INDICIUM_ENGINE"
  heap :: "addr \<rightharpoonup> byte list"
  indicium_logger :: bool
  trace :: "event list"

text \<open>
  What the platform answers during one call into Engine.cpp: the results of the
  operating-system and C-runtime calls the function makes, the expansion of environment
  variables (Global.h), and whether the build defines \<open>_DEBUG\<close>.
\<close>

record platform =
  os_GetModuleHandleEx :: bool
  os_malloc :: addr
  os_CreateEvent :: addr
  os_CreateThread :: addr
  os_SetEvent :: "addr \<Rightarrow> bool"
  os_GetLastError :: DWORD
  os_WaitForSingleObject :: "addr \<Rightarrow> DWORD"
  expand_environment_variables :: "string \<Rightarrow> string"
  DEBUG_build :: bool

definition emit :: "event list \<Rightarrow> state \<Rightarrow> state" where
  "emit evs s = s\<lparr>trace := trace s @ evs\<rparr>"

subsection \<open>The registry: \<open>std::map<HMODULE, PINDICIUM_ENGINE>\<close>\<close>

fun map_count :: "(addr \<times> addr) list \<Rightarrow> addr \<Rightarrow> nat" where
  "map_count [] k = 0"
| "map_count ((k', v) # r) k = (if k' = k then 1 else map_count r k)"

text \<open>\<open>m[k] = v\<close>: overwrite the entry of \<open>k\<close>, or insert it at its place in key order.\<close>

fun map_assign :: "(addr \<times> addr) list \<Rightarrow> addr \<Rightarrow> addr \<Rightarrow> (addr \<times> addr) list" where
  "map_assign [] k v = [(k, v)]"
| "map_assign ((k', v') # r) k v =
     (if k < k' then (k, v) # (k', v') # r
      else if k = k' then (k, v) # r
      else (k', v') # map_assign r k v)"

text \<open>
  \<open>m[k]\<close> read: the stored pointer. (For an absent key \<open>operator[]\<close> yields a null pointer;
  IndiciumEngineDestroy reads only a key it has just found present.)
\<close>

fun map_at :: "(addr \<times> addr) list \<Rightarrow> addr \<Rightarrow> addr" where
  "map_at [] k = 0"
| "map_at ((k', v) # r) k = (if k' = k then v else map_at r k)"

text \<open>\<open>m.erase(m.find(k))\<close> for a key that is present.\<close>

fun map_erase :: "(addr \<times> addr) list \<Rightarrow> addr \<Rightarrow> (addr \<times> addr) list" where
  "map_erase [] k = []"
| "map_erase ((k', v) # r) k = (if k' = k then r else (k', v) # map_erase r k)"

subsection \<open>Custom context\<close>

text \<open>
  \<open>free(p)\<close>: the call is recorded and the block at \<open>p\<close> stops being live.
\<close>

definition c_free :: "addr \<Rightarrow> state \<Rightarrow> state" where
  "c_free p s = emit [Ev_free p] (s\<lparr>heap := (heap s)(p := None)\<rparr>)"

text \<open>
  \<open>malloc(n)\<close>: the platform answers with a pointer; a non-null answer is a live block of
  \<open>n\<close> bytes. (C leaves the content of a fresh block indeterminate; it is zeros here.)
\<close>

definition c_malloc :: "platform \<Rightarrow> nat \<Rightarrow> state \<Rightarrow> addr \<times> state" where
  "c_malloc pf n s =
     (let p = os_malloc pf;
          s1 = emit [Ev_malloc n p] s
      in if p = 0 then (p, s1) else (p, s1\<lparr>heap := (heap s1)(p \<mapsto> replicate n 0)\<rparr>))"

text \<open>
  \<open>memcpy(dst, src, n)\<close>: the first \<open>n\<close> bytes of the block at \<open>dst\<close> become the first \<open>n\<close>
  bytes at \<open>src\<close>. The source is given by the bytes readable there; a length beyond them,
  or a destination that is not a live block, is undefined in C and nothing is claimed of it.
\<close>

definition c_memcpy :: "addr \<Rightarrow> byte list \<Rightarrow> nat \<Rightarrow> state \<Rightarrow> state" where
  "c_memcpy dst src n s =
     emit [Ev_memcpy dst src n]
       (case heap s dst of
          None \<Rightarrow> s
        | Some old \<Rightarrow> s\<lparr>heap := (heap s)(dst \<mapsto> take n src @ drop n old)\<rparr>)"

definition IndiciumEngineFreeCustomContext :: "addr \<Rightarrow> state \<Rightarrow> INDICIUM_ERROR \<times> state" where
  "IndiciumEngineFreeCustomContext Engine s =
     (if Engine = 0 then (INDICIUM_ERROR_INVALID_ENGINE_HANDLE, s)
      else if CustomContext (engines s Engine) \<noteq> 0
        then (INDICIUM_ERROR_NONE, c_free (CustomContext (engines s Engine)) s)
      else (INDICIUM_ERROR_NONE, s))"

definition IndiciumEngineAllocCustomContext ::
  "platform \<Rightarrow> addr \<Rightarrow> byte list \<Rightarrow> nat \<Rightarrow> state \<Rightarrow> INDICIUM_ERROR \<times> state" where
  "IndiciumEngineAllocCustomContext pf Engine Context ContextSize s =
     (if Engine = 0 then (INDICIUM_ERROR_INVALID_ENGINE_HANDLE, s)
      else
        let s1 = (if CustomContext (engines s Engine) = 0
                  then snd (IndiciumEngineFreeCustomContext Engine s) else s);
            (p, s2) = c_malloc pf ContextSize s1;
            s3 = s2\<lparr>engines := (engines s2)(Engine := (engines s2 Engine)\<lparr>CustomContext := p\<rparr>)\<rparr>
        in if CustomContext (engines s3 Engine) = 0
           then (INDICIUM_ERROR_CONTEXT_ALLOCATION_FAILED, s3)
           else (INDICIUM_ERROR_NONE, c_memcpy (CustomContext (engines s3 Engine)) Context ContextSize s3))"

definition IndiciumEngineGetCustomContext :: "addr \<Rightarrow> state \<Rightarrow> addr" where
  "IndiciumEngineGetCustomContext Engine s =
     (if Engine = 0 then 0 else CustomContext (engines s Engine))"

subsection \<open>Termination Guard: \<open>FakeExitProcess\<close>\<close>

text \<open>The status codes of \<open>WaitForSingleObject\<close>, with their Windows SDK values.\<close>

definition WAIT_OBJECT_0 :: DWORD where "WAIT_OBJECT_0 = 0x00000000"
definition WAIT_ABANDONED :: DWORD where "WAIT_ABANDONED = 0x00000080"
definition WAIT_TIMEOUT :: DWORD where "WAIT_TIMEOUT = 0x00000102"
definition WAIT_FAILED :: DWORD where "WAIT_FAILED = 0xFFFFFFFF"

text \<open>
  The \<open>switch (result)\<close> of FakeExitProcess, for the thread handle \<open>th\<close>: the calls it makes.
  The \<open>WAIT_TIMEOUT\<close> body is compiled only without \<open>_DEBUG\<close>.
\<close>

definition wait_switch :: "platform \<Rightarrow> addr \<Rightarrow> DWORD \<Rightarrow> event list" where
  "wait_switch pf th result =
     (if result = WAIT_ABANDONED then
        [Ev_log ''process'' error ''Unknown state, host process might crash'' []]
      else if result = WAIT_OBJECT_0 then
        [Ev_log ''process'' info ''Thread shutdown complete'' []]
      else if result = WAIT_TIMEOUT then
        (if DEBUG_build pf then []
         else [Ev_TerminateThread th 0,
               Ev_log ''process'' error
                 ''Thread hasn't finished clean-up within expected time, terminating'' []])
      else if result = WAIT_FAILED then
        [Ev_log ''process'' error ''Unknown error, host process might crash'' []]
      else
        [Ev_TerminateThread th 0,
         Ev_log ''process'' error ''Unexpected return value, terminating'' []])"

text \<open>
  The wait step of one instance: the bounded wait on the worker thread, then the switch on
  its status.
\<close>

definition wait_step :: "platform \<Rightarrow> INDICIUM_ENGINE \<Rightarrow> event list" where
  "wait_step pf e =
     Ev_WaitForSingleObject (EngineThread e) 3000
       # wait_switch pf (EngineThread e) (os_WaitForSingleObject pf (EngineThread e))"

text \<open>
  One iteration of the range-for of FakeExitProcess, for the registry entry whose value is
  the pointer \<open>p\<close> to the engine \<open>e\<close>. The pre-exit callback is a call through a
  caller-supplied function pointer: what it does is not in Engine.cpp, and it is recorded
  as a call that returns and leaves the registry and the engine structs alone.
\<close>

definition guard_instance :: "platform \<Rightarrow> addr \<Rightarrow> INDICIUM_ENGINE \<Rightarrow> event list" where
  "guard_instance pf p e =
     (if EvtIndiciumGamePreExit (EngineConfig e) \<noteq> 0
      then [Ev_call (EvtIndiciumGamePreExit (EngineConfig e)) [p]] else [])
     @ [Ev_SetEvent (EngineCancellationEvent e)]
     @ (if \<not> os_SetEvent pf (EngineCancellationEvent e)
        then [Ev_log ''process'' error ''SetEvent failed: {}'' [os_GetLastError pf]] else [])
     @ wait_step pf e"

fun guard_loop :: "platform \<Rightarrow> (addr \<Rightarrow> INDICIUM_ENGINE) \<Rightarrow> (addr \<times> addr) list \<Rightarrow> event list" where
  "guard_loop pf mem [] = []"
| "guard_loop pf mem ((k, p) # kvs) = guard_instance pf p (mem p) @ guard_loop pf mem kvs"

text \<open>
  \<open>FakeExitProcess(uExitCode)\<close>. Its first statement is
  \<open>spdlog::get('indicium')->clone('process')\<close>: with no such logger registered the function
  stops there, before any call. Otherwise the last call, \<open>RealExitProcess\<close>, does not return.
  The state given back is the one in which the process ends; the first component tells
  whether it ended at the null logger.
\<close>

definition FakeExitProcess_calls :: "platform \<Rightarrow> DWORD \<Rightarrow> state \<Rightarrow> event list" where
  "FakeExitProcess_calls pf uExitCode s =
     (if \<not> indicium_logger s then []
      else
        Ev_log ''process'' info
          ''Host process is terminating, performing pre-DLL-detach clean-up tasks'' []
        # guard_loop pf (engines s) (g_EngineHostInstances s)
        @ [Ev_RealExitProcess uExitCode])"

definition FakeExitProcess :: "platform \<Rightarrow> DWORD \<Rightarrow> state \<Rightarrow> fault option \<times> state" where
  "FakeExitProcess pf uExitCode s =
     (if \<not> indicium_logger s then (Some null_logger, s)
      else (None, emit (FakeExitProcess_calls pf uExitCode s) s))"

subsection \<open>\<open>IndiciumEngineCreate\<close> and \<open>IndiciumEngineDestroy\<close>\<close>

text \<open>\<open>ZeroMemory(engine, sizeof(INDICIUM_ENGINE))\<close>: every member zero.\<close>

definition zero_config :: INDICIUM_ENGINE_CONFIG where
  "zero_config =
     \<lparr>EvtIndiciumGamePreExit = 0, EvtIndiciumGameHooked = 0, LogFilePath = [],
      EnableLogging = False\<rparr>"

definition no_callbacks :: callbacks where
  "no_callbacks = (\<lambda>slot. 0)"

definition zero_engine :: INDICIUM_ENGINE where
  "zero_engine =
     \<lparr>HostInstance = 0, GameVersion = 0, EngineConfig = zero_config,
      EventsD3D9 = no_callbacks, EventsD3D10 = no_callbacks, EventsD3D11 = no_callbacks,
      EventsD3D12 = no_callbacks, EventsARC = no_callbacks,
      EngineThread = 0, EngineCancellationEvent = 0, CustomContext = 0,
      RenderPipeline = 0, CoreAudio = 0\<rparr>"

text \<open>The attach and detach transactions on \<open>RealExitProcess\<close>, as the calls made to Detours.\<close>

definition attach_calls :: "event list" where
  "attach_calls =
     [Ev_DetourRestoreAfterWith, Ev_DetourTransactionBegin, Ev_DetourUpdateThread,
      Ev_DetourAttach, Ev_DetourTransactionCommit]"

definition detach_calls :: "event list" where
  "detach_calls =
     [Ev_DetourTransactionBegin, Ev_DetourUpdateThread, Ev_DetourDetach,
      Ev_DetourTransactionCommit]"

text \<open>
  The logger set-up of IndiciumEngineCreate after \<open>basic_logger_mt\<close> has returned, up to
  the first line logged.
\<close>

definition logging_calls :: "platform \<Rightarrow> INDICIUM_ENGINE_CONFIG \<Rightarrow> event list" where
  "logging_calls pf cfg =
     (if DEBUG_build pf then [Ev_set_level debug, Ev_flush_on debug] else [Ev_flush_on info])
     @ (if EnableLogging cfg then [Ev_set_default_logger] else [])
     @ [Ev_log ''api'' info ''Indicium engine initialized, attempting to launch main thread'' []]"

text \<open>
  \<open>IndiciumEngineCreate(HostInstance, EngineConfig, Engine)\<close>. \<open>sz\<close> is
  \<open>sizeof(INDICIUM_ENGINE)\<close>; \<open>EngineConfig\<close> is the struct the pointer refers to; \<open>Engine\<close>
  tells whether the out-pointer is non-null. The second component of the result is the
  value written through \<open>Engine\<close>, if any. The struct obtained from \<open>malloc\<close> is
  written in the engine memory at the address \<open>malloc\<close> answered. The worker thread it
  starts runs \<open>IndiciumMainThread\<close> (Game.h), which is not part of this development.
  \<open>basic_logger_mt('indicium', ..)\<close> registers the logger, and throws when one of that
  name is registered already: the call then ends there, with the detour attached, the
  struct allocated and the event created, and nothing registered.
\<close>

definition IndiciumEngineCreate ::
  "platform \<Rightarrow> nat \<Rightarrow> addr \<Rightarrow> INDICIUM_ENGINE_CONFIG \<Rightarrow> bool \<Rightarrow> state
     \<Rightarrow> INDICIUM_ERROR outcome \<times> addr option \<times> state" where
  "IndiciumEngineCreate pf sz HostInst EngineCfg Engine s =
     (if map_count (g_EngineHostInstances s) HostInst \<noteq> 0
      then (Returns INDICIUM_ERROR_ENGINE_ALREADY_ALLOCATED, None, s)
      else
        let s1 = emit (attach_calls @ [Ev_GetModuleHandleEx HostInst]) s in
        if \<not> os_GetModuleHandleEx pf
        then (Returns INDICIUM_ERROR_REFERENCE_INCREMENT_FAILED, None, s1)
        else
          let engine = os_malloc pf;
              s2 = emit [Ev_malloc sz engine] s1 in
          if engine = 0
          then (Returns INDICIUM_ERROR_ENGINE_ALLOCATION_FAILED, None, s2)
          else
            let e1 = zero_engine\<lparr>HostInstance := HostInst, EngineConfig := EngineCfg,
                       EngineCancellationEvent := os_CreateEvent pf\<rparr>;
                s3 = emit [Ev_CreateEvent (os_CreateEvent pf),
                           Ev_basic_logger_mt ''indicium''
                             (expand_environment_variables pf (LogFilePath EngineCfg))]
                       (s2\<lparr>engines := (engines s2)(engine := e1)\<rparr>) in
            if indicium_logger s3
            then (Faults spdlog_ex, None, s3)
            else
              let e2 = e1\<lparr>EngineThread := os_CreateThread pf\<rparr>;
                  s4 = emit (logging_calls pf EngineCfg
                             @ [Ev_CreateThread engine (os_CreateThread pf)])
                         (s3\<lparr>indicium_logger := True,
                             engines := (engines s3)(engine := e2)\<rparr>) in
              if EngineThread e2 = 0
              then (Returns INDICIUM_ERROR_CREATE_THREAD_FAILED, None,
                    emit [Ev_log ''api'' error
                            ''Could not create main thread, library unusable'' []] s4)
              else
                let s5 = emit [Ev_log ''api'' info ''Main thread created successfully'' []] s4
                in (Returns INDICIUM_ERROR_NONE,
                    (if Engine then Some engine else None),
                    s5\<lparr>g_EngineHostInstances :=
                          map_assign (g_EngineHostInstances s5) HostInst engine\<rparr>))"

text \<open>
  \<open>IndiciumEngineDestroy(HostInstance)\<close>. After the detach transaction it takes the logger
  with \<open>spdlog::get('indicium')->clone('api')\<close>, and stops there when none is registered.
\<close>

definition IndiciumEngineDestroy :: "addr \<Rightarrow> state \<Rightarrow> INDICIUM_ERROR outcome \<times> state" where
  "IndiciumEngineDestroy HostInst s =
     (if map_count (g_EngineHostInstances s) HostInst = 0
      then (Returns INDICIUM_ERROR_INVALID_HMODULE_HANDLE, s)
      else
        let s0 = emit detach_calls s in
        if \<not> indicium_logger s0 then (Faults null_logger, s0)
        else
          let engine = engines s0 (map_at (g_EngineHostInstances s0) HostInst);
              s1 = emit [Ev_log ''api'' info ''Freeing remaining resources'' [],
                         Ev_CloseHandle (EngineCancellationEvent engine),
                         Ev_CloseHandle (EngineThread engine)] s0;
              s2 = s1\<lparr>g_EngineHostInstances := map_erase (g_EngineHostInstances s1) HostInst\<rparr>
          in (Returns INDICIUM_ERROR_NONE,
              emit [Ev_log ''api'' info ''Engine shutdown complete'' [], Ev_flush] s2))"

subsection \<open>Dispatch macros of Engine.h\<close>

text \<open>
  \<open>INVOKE_x_CALLBACK(_engine_, _callback_, ...)\<close>: the conditional expression
  \<open>slot ? slot(args) : (void)0\<close> on the named member of the table of variant \<open>x\<close>.
\<close>

definition invoke_slot :: "addr \<Rightarrow> addr list \<Rightarrow> state \<Rightarrow> state" where
  "invoke_slot slot args s = (if slot \<noteq> 0 then emit [Ev_call slot args] s else s)"

definition INVOKE_INDICIUM_GAME_HOOKED :: "addr \<Rightarrow> addr \<Rightarrow> state \<Rightarrow> state" where
  "INVOKE_INDICIUM_GAME_HOOKED engine version s =
     invoke_slot (EvtIndiciumGameHooked (EngineConfig (engines s engine))) [engine, version] s"

definition INVOKE_D3D9_CALLBACK :: "addr \<Rightarrow> string \<Rightarrow> addr list \<Rightarrow> state \<Rightarrow> state" where
  "INVOKE_D3D9_CALLBACK engine callback args s =
     invoke_slot (EventsD3D9 (engines s engine) callback) args s"

definition INVOKE_D3D10_CALLBACK :: "addr \<Rightarrow> string \<Rightarrow> addr list \<Rightarrow> state \<Rightarrow> state" where
  "INVOKE_D3D10_CALLBACK engine callback args s =
     invoke_slot (EventsD3D10 (engines s engine) callback) args s"

definition INVOKE_D3D11_CALLBACK :: "addr \<Rightarrow> string \<Rightarrow> addr list \<Rightarrow> state \<Rightarrow> state" where
  "INVOKE_D3D11_CALLBACK engine callback args s =
     invoke_slot (EventsD3D11 (engines s engine) callback) args s"

definition INVOKE_D3D12_CALLBACK :: "addr \<Rightarrow> string \<Rightarrow> addr list \<Rightarrow> state \<Rightarrow> state" where
  "INVOKE_D3D12_CALLBACK engine callback args s =
     invoke_slot (EventsD3D12 (engines s engine) callback) args s"

definition INVOKE_ARC_CALLBACK :: "addr \<Rightarrow> string \<Rightarrow> addr list \<Rightarrow> state \<Rightarrow> state" where
  "INVOKE_ARC_CALLBACK engine callback args s =
     invoke_slot (EventsARC (engines s engine) callback) args s"

subsection \<open>Classifying recorded calls\<close>

fun is_RealExitProcess :: "event \<Rightarrow> bool" where
  "is_RealExitProcess (Ev_RealExitProcess c) = True"
| "is_RealExitProcess ev = False"

fun is_log :: "event \<Rightarrow> bool" where
  "is_log (Ev_log n l m a) = True"
| "is_log ev = False"

fun is_TerminateThread :: "event \<Rightarrow> bool" where
  "is_TerminateThread (Ev_TerminateThread h c) = True"
| "is_TerminateThread ev = False"

text \<open>The first statement of the loop body of FakeExitProcess, as it stands in \<open>guard_instance\<close>.\<close>

definition pre_exit_call :: "addr \<Rightarrow> INDICIUM_ENGINE \<Rightarrow> event list" where
  "pre_exit_call p e =
     (if EvtIndiciumGamePreExit (EngineConfig e) \<noteq> 0
      then [Ev_call (EvtIndiciumGamePreExit (EngineConfig e)) [p]] else [])"

subsection \<open>Concrete inputs\<close>

text \<open>
  The process at its start, and a process with one registered instance: host module 1 with
  its engine struct at 100, created with a pre-exit callback at 900, worker thread handle
  11 and cancellation event 12. Since its creation the instance has been given a
  Direct3D 9 table whose slot \<open>EvtIndiciumD3D9PreEndScene\<close> holds the function at 700, and
  a custom context at 500 holding three bytes. The record of calls starts afresh.
\<close>

definition example_config :: INDICIUM_ENGINE_CONFIG where
  "example_config =
     \<lparr>EvtIndiciumGamePreExit = 900, EvtIndiciumGameHooked = 0,
      LogFilePath = ''indicium.log'', EnableLogging = True\<rparr>"

definition engine_A :: INDICIUM_ENGINE where
  "engine_A =
     zero_engine\<lparr>HostInstance := 1, EngineConfig := example_config,
                 EventsD3D9 := (\<lambda>slot. if slot = ''EvtIndiciumD3D9PreEndScene'' then 700 else 0),
                 EngineThread := 11, EngineCancellationEvent := 12, CustomContext := 500\<rparr>"

definition initial_state :: state where
  "initial_state =
     \<lparr>g_EngineHostInstances = [], engines = (\<lambda>p. zero_engine), heap = Map.empty,
      indicium_logger = False, trace = []\<rparr>"

definition running_instance :: state where
  "running_instance =
     \<lparr>g_EngineHostInstances = [(1, 100)],
      engines = (\<lambda>p. if p = 100 then engine_A else zero_engine),
      heap = [500 \<mapsto> [1, 2, 3]],
      indicium_logger = True,
      trace = []\<rparr>"

text \<open>
  Platform answers: every call succeeds, \<open>malloc\<close> gives \<open>m\<close>, \<open>CreateEvent\<close> gives \<open>ev\<close>,
  \<open>CreateThread\<close> gives \<open>th\<close>, and a wait on any thread ends with the status \<open>w\<close>.
\<close>

definition example_platform :: "addr \<Rightarrow> addr \<Rightarrow> addr \<Rightarrow> DWORD \<Rightarrow> platform" where
  "example_platform m ev th w =
     \<lparr>os_GetModuleHandleEx = True, os_malloc = m, os_CreateEvent = ev, os_CreateThread = th,
      os_SetEvent = (\<lambda>h. True), os_GetLastError = 0, os_WaitForSingleObject = (\<lambda>h. w),
      expand_environment_variables = (\<lambda>path. path), DEBUG_build = False\<rparr>"

text \<open>
  The state after a call of IndiciumEngineCreate for host module 1 that fails at
  \<open>GetModuleHandleEx\<close>, in a process that has made no other call into Engine.cpp; and
  the state after a call for host module 1 in which everything succeeds (the engine struct
  at 100, cancellation event 12, worker thread 11).
\<close>

definition after_failed_create :: state where
  "after_failed_create =
     snd (snd (IndiciumEngineCreate
                 ((example_platform 0 0 0 0)\<lparr>os_GetModuleHandleEx := False\<rparr>) 128 1
                 example_config True initial_state))"

definition one_instance :: state where
  "one_instance =
     snd (snd (IndiciumEngineCreate (example_platform 100 12 11 0) 128 1 example_config True
                 initial_state))"

subsection \<open>States the process can reach\<close>

text \<open>
  The process starts with an empty registry and no logger. A call of IndiciumEngineCreate
  or IndiciumEngineDestroy leads from one state to the next, however the call ends.
  Everything else that runs (the custom-context functions, the callback setters, the log
  functions, the worker thread, the callbacks) may change engine structs, live blocks and
  the record of calls, but neither the registry, which only IndiciumEngineCreate and
  IndiciumEngineDestroy write, nor the logger, which only IndiciumEngineCreate registers.
\<close>

inductive reachable :: "state \<Rightarrow> bool" where
  start: "reachable initial_state"
| create:
    "reachable s \<Longrightarrow>
     reachable (snd (snd (IndiciumEngineCreate pf sz HostInst EngineCfg Engine s)))"
| destroy: "reachable s \<Longrightarrow> reachable (snd (IndiciumEngineDestroy HostInst s))"
| other: "reachable s \<Longrightarrow> reachable (s\<lparr>engines := mem, heap := blocks, trace := calls\<rparr>)"

section \<open>Properties\<close>

subsection \<open>Auxiliary facts\<close>

lemma map_count_registered: "map_count r k \<noteq> 0 \<longleftrightarrow> k \<in> fst ` set r"
  by (induction r) auto

lemma registered_position:
  "(k, p) \<in> set r \<Longrightarrow> \<exists>xs ys. r = xs @ (k, p) # ys"
  by (simp add: split_list)

lemma wait_switch_no_exit: "filter is_RealExitProcess (wait_switch pf th r) = []"
  by (simp add: wait_switch_def)

lemma guard_instance_no_exit: "filter is_RealExitProcess (guard_instance pf p e) = []"
  by (simp add: guard_instance_def wait_step_def wait_switch_no_exit)

lemma guard_loop_no_exit: "filter is_RealExitProcess (guard_loop pf mem kvs) = []"
  by (induction kvs) (auto simp: guard_instance_no_exit)

lemma guard_loop_append:
  "guard_loop pf mem (xs @ ys) = guard_loop pf mem xs @ guard_loop pf mem ys"
  by (induction xs) auto

lemma wait_switch_shape:
  "list_all (\<lambda>ev. is_log ev \<or> is_TerminateThread ev) (wait_switch pf th r)"
  by (simp add: wait_switch_def)





lemma after_failed_create_reachable: "reachable after_failed_create"
  unfolding after_failed_create_def by (rule reachable.create [OF reachable.start])

lemma running_instance_reachable: "reachable running_instance"
proof -
  have "reachable one_instance"
    unfolding one_instance_def by (rule reachable.create [OF reachable.start])
  then have "reachable (one_instance\<lparr>engines := engines running_instance,
      heap := heap running_instance, trace := trace running_instance\<rparr>)"
    by (rule reachable.other)
  moreover have "one_instance\<lparr>engines := engines running_instance,
      heap := heap running_instance, trace := trace running_instance\<rparr> = running_instance"
    by (simp add: one_instance_def running_instance_def IndiciumEngineCreate_def Let_def
          emit_def initial_state_def example_platform_def)
  ultimately show ?thesis by simp
qed


subsection \<open>Termination Guard\<close>

text \<open>
  With the logger registered, FakeExitProcess adds its calls to the record in this order:
  the opening log line, the loop over the registry, and last \<open>RealExitProcess\<close> with the
  exit code it was given; that is the only call of \<open>RealExitProcess\<close>. Every registry entry
  \<open>(k, p)\<close> stands between some entries \<open>xs\<close> and \<open>ys\<close> (\<open>registered_position\<close>), and then
  the calls are: the iterations for \<open>xs\<close>; then the pre-exit callback on \<open>p\<close> if the
  configuration has one; then \<open>SetEvent\<close> on that instance's cancellation event; then
  nothing but log lines; then \<open>WaitForSingleObject\<close> on that instance's thread with
  3000 ms; then nothing but log lines and thread termination; then the iterations for
  \<open>ys\<close>; and only then \<open>RealExitProcess\<close>.
\<close>

lemma FakeExitProcess_with_logger:
  assumes logger: "indicium_logger s"
  shows "fst (FakeExitProcess pf uExitCode s) = None
   \<and> trace (snd (FakeExitProcess pf uExitCode s))
       = trace s @ FakeExitProcess_calls pf uExitCode s
   \<and> filter is_RealExitProcess (FakeExitProcess_calls pf uExitCode s)
       = [Ev_RealExitProcess uExitCode]
   \<and> last (FakeExitProcess_calls pf uExitCode s) = Ev_RealExitProcess uExitCode
   \<and> (g_EngineHostInstances s = xs @ (k, p) # ys \<longrightarrow>
        (\<exists>between rest.
           FakeExitProcess_calls pf uExitCode s =
             Ev_log ''process'' info
               ''Host process is terminating, performing pre-DLL-detach clean-up tasks'' []
             # guard_loop pf (engines s) xs
             @ pre_exit_call p (engines s p)
             @ [Ev_SetEvent (EngineCancellationEvent (engines s p))]
             @ between
             @ [Ev_WaitForSingleObject (EngineThread (engines s p)) 3000]
             @ rest
             @ guard_loop pf (engines s) ys
             @ [Ev_RealExitProcess uExitCode]
           \<and> list_all is_log between
           \<and> list_all (\<lambda>ev. is_log ev \<or> is_TerminateThread ev) rest))"
proof -
  have r: "fst (FakeExitProcess pf uExitCode s) = None"
    using logger by (simp add: FakeExitProcess_def)
  have t: "trace (snd (FakeExitProcess pf uExitCode s))
           = trace s @ FakeExitProcess_calls pf uExitCode s"
    using logger by (simp add: FakeExitProcess_def emit_def)
  have once: "filter is_RealExitProcess (FakeExitProcess_calls pf uExitCode s)
              = [Ev_RealExitProcess uExitCode]"
    using logger by (simp add: FakeExitProcess_calls_def guard_loop_no_exit)
  have lst: "last (FakeExitProcess_calls pf uExitCode s) = Ev_RealExitProcess uExitCode"
    using logger by (simp add: FakeExitProcess_calls_def)
  have ord: "\<exists>between rest.
           FakeExitProcess_calls pf uExitCode s =
             Ev_log ''process'' info
               ''Host process is terminating, performing pre-DLL-detach clean-up tasks'' []
             # guard_loop pf (engines s) xs
             @ pre_exit_call p (engines s p)
             @ [Ev_SetEvent (EngineCancellationEvent (engines s p))]
             @ between
             @ [Ev_WaitForSingleObject (EngineThread (engines s p)) 3000]
             @ rest
             @ guard_loop pf (engines s) ys
             @ [Ev_RealExitProcess uExitCode]
           \<and> list_all is_log between
           \<and> list_all (\<lambda>ev. is_log ev \<or> is_TerminateThread ev) rest"
    if reg: "g_EngineHostInstances s = xs @ (k, p) # ys"
  proof -
    let ?e = "engines s p"
    let ?between = "if \<not> os_SetEvent pf (EngineCancellationEvent ?e)
        then [Ev_log ''process'' error ''SetEvent failed: {}'' [os_GetLastError pf]] else []"
    let ?rest = "wait_switch pf (EngineThread ?e) (os_WaitForSingleObject pf (EngineThread ?e))"
    have "FakeExitProcess_calls pf uExitCode s =
             Ev_log ''process'' info
               ''Host process is terminating, performing pre-DLL-detach clean-up tasks'' []
             # guard_loop pf (engines s) xs
             @ pre_exit_call p ?e
             @ [Ev_SetEvent (EngineCancellationEvent ?e)]
             @ ?between
             @ [Ev_WaitForSingleObject (EngineThread ?e) 3000]
             @ ?rest
             @ guard_loop pf (engines s) ys
             @ [Ev_RealExitProcess uExitCode]"
      using logger
      by (simp add: FakeExitProcess_calls_def reg guard_loop_append guard_instance_def
            wait_step_def pre_exit_call_def)
    moreover have "list_all is_log ?between" by simp
    moreover have "list_all (\<lambda>ev. is_log ev \<or> is_TerminateThread ev) ?rest"
      by (rule wait_switch_shape)
    ultimately show ?thesis by blast
  qed
  from r t once lst ord show ?thesis by blast
qed

text \<open>
  C1 fails on the code. A first call of IndiciumEngineCreate that fails at
  \<open>GetModuleHandleEx\<close> returns \<open>INDICIUM_ERROR_REFERENCE_INCREMENT_FAILED\<close> after it has
  attached FakeExitProcess to the process-exit entry point (nothing detaches it) and before
  any logger is registered. When the host then exits with code 3, FakeExitProcess stops at
  its first statement, at the null logger: it makes no call at all, and \<open>RealExitProcess\<close>
  is not called.
\<close>

theorem FakeExitProcess_without_logger:
  "fst (IndiciumEngineCreate ((example_platform 0 0 0 0)\<lparr>os_GetModuleHandleEx := False\<rparr>)
          128 1 example_config True initial_state)
     = Returns INDICIUM_ERROR_REFERENCE_INCREMENT_FAILED
   \<and> trace after_failed_create = attach_calls @ [Ev_GetModuleHandleEx 1]
   \<and> count_list (trace after_failed_create) Ev_DetourAttach = 1
   \<and> count_list (trace after_failed_create) Ev_DetourDetach = 0
   \<and> g_EngineHostInstances after_failed_create = []
   \<and> indicium_logger after_failed_create = False
   \<and> FakeExitProcess (example_platform 0 0 0 0) 3 after_failed_create
       = (Some null_logger, after_failed_create)
   \<and> FakeExitProcess_calls (example_platform 0 0 0 0) 3 after_failed_create = []
   \<and> filter is_RealExitProcess
        (trace (snd (FakeExitProcess (example_platform 0 0 0 0) 3 after_failed_create))) = []"
proof -
  have st: "after_failed_create
      = initial_state\<lparr>trace := attach_calls @ [Ev_GetModuleHandleEx 1]\<rparr>"
    by (simp add: after_failed_create_def IndiciumEngineCreate_def Let_def emit_def
          initial_state_def example_platform_def)
  have r: "fst (IndiciumEngineCreate
                  ((example_platform 0 0 0 0)\<lparr>os_GetModuleHandleEx := False\<rparr>)
                  128 1 example_config True initial_state)
           = Returns INDICIUM_ERROR_REFERENCE_INCREMENT_FAILED"
    by (simp add: IndiciumEngineCreate_def Let_def initial_state_def example_platform_def)
  have lg: "indicium_logger after_failed_create = False"
    and reg: "g_EngineHostInstances after_failed_create = []"
    and tr: "trace after_failed_create = attach_calls @ [Ev_GetModuleHandleEx 1]"
    by (simp_all add: st initial_state_def)
  have cnt: "count_list (trace after_failed_create) Ev_DetourAttach = 1"
    "count_list (trace after_failed_create) Ev_DetourDetach = 0"
    by (simp_all add: tr attach_calls_def)
  have ex: "FakeExitProcess (example_platform 0 0 0 0) 3 after_failed_create
       = (Some null_logger, after_failed_create)"
    by (simp add: FakeExitProcess_def lg)
  have calls: "FakeExitProcess_calls (example_platform 0 0 0 0) 3 after_failed_create = []"
    by (simp add: FakeExitProcess_calls_def lg)
  have none: "filter is_RealExitProcess
        (trace (snd (FakeExitProcess (example_platform 0 0 0 0) 3 after_failed_create))) = []"
    by (simp add: ex tr attach_calls_def)
  from r tr cnt reg lg ex calls none show ?thesis by blast
qed

subsection \<open>Registry and instance lifecycle\<close>

text \<open>
  C2. When the host module is already a key of the registry, IndiciumEngineCreate returns
  \<open>INDICIUM_ERROR_ENGINE_ALREADY_ALLOCATED\<close>, writes nothing through its out-pointer, and
  gives back the state it was given: the same registry, the same engine structs, the same
  live blocks, and no outside call (so no Detours transaction either).
\<close>

theorem create_already_allocated:
  assumes "HostInst \<in> fst ` set (g_EngineHostInstances s)"
  shows "IndiciumEngineCreate pf sz HostInst EngineCfg Engine s
         = (Returns INDICIUM_ERROR_ENGINE_ALREADY_ALLOCATED, None, s)"
proof -
  from assms have "map_count (g_EngineHostInstances s) HostInst \<noteq> 0"
    using map_count_registered by blast
  then show ?thesis
    by (simp add: IndiciumEngineCreate_def)
qed

theorem create_already_allocated_witness:
  "1 \<in> fst ` set (g_EngineHostInstances running_instance)
   \<and> IndiciumEngineCreate (example_platform 300 31 32 0) 128 1 example_config True
         running_instance
       = (Returns INDICIUM_ERROR_ENGINE_ALREADY_ALLOCATED, None, running_instance)"
proof -
  have reg: "1 \<in> fst ` set (g_EngineHostInstances running_instance)"
    by (simp add: running_instance_def)
  from create_already_allocated [OF reg] reg show ?thesis
    by simp
qed



text \<open>
  C5, as the code has it. Every call of IndiciumEngineCreate for a host module that is not
  registered starts with the attach transaction (\<open>DetourRestoreAfterWith\<close>,
  \<open>DetourTransactionBegin\<close>, \<open>DetourUpdateThread\<close>, \<open>DetourAttach\<close>,
  \<open>DetourTransactionCommit\<close>): whether or not other instances are registered already, and
  whatever the outcome of the call.
\<close>

theorem create_always_attaches:
  assumes "HostInst \<notin> fst ` set (g_EngineHostInstances s)"
  shows "\<exists>rest. trace (snd (snd (IndiciumEngineCreate pf sz HostInst EngineCfg Engine s)))
                 = trace s @ attach_calls @ rest"
proof -
  from assms have "map_count (g_EngineHostInstances s) HostInst = 0"
    using map_count_registered by blast
  then show ?thesis
    by (simp add: IndiciumEngineCreate_def Let_def emit_def)
qed

theorem create_always_attaches_witness:
  "3 \<notin> fst ` set (g_EngineHostInstances running_instance)
   \<and> (\<exists>rest. trace (snd (snd (IndiciumEngineCreate (example_platform 300 31 32 0) 128 3
                                 example_config True running_instance)))
              = trace running_instance @ attach_calls @ rest)"
proof -
  have reg: "3 \<notin> fst ` set (g_EngineHostInstances running_instance)"
    by (simp add: running_instance_def)
  from create_always_attaches [OF reg] reg show ?thesis
    by blast
qed

text \<open>
  C5 as stated fails. Starting from the empty registry, a successful IndiciumEngineCreate
  for host module 1 followed by a call for host module 2 leaves two calls of
  \<open>DetourAttach\<close> on record: both when the second call fails at \<open>GetModuleHandleEx\<close>, and
  when it gets as far as \<open>basic_logger_mt\<close>, which throws.
\<close>

theorem create_attaches_twice:
  "fst (IndiciumEngineCreate (example_platform 100 12 11 0) 128 1 example_config True
          initial_state) = Returns INDICIUM_ERROR_NONE
   \<and> count_list
        (trace (snd (snd (IndiciumEngineCreate (example_platform 100 12 11 0) 128 1
           example_config True initial_state))))
        Ev_DetourAttach = 1
   \<and> fst (IndiciumEngineCreate
          ((example_platform 200 22 21 0)\<lparr>os_GetModuleHandleEx := False\<rparr>) 128 2
          example_config True
          (snd (snd (IndiciumEngineCreate (example_platform 100 12 11 0) 128 1 example_config
                       True initial_state)))) = Returns INDICIUM_ERROR_REFERENCE_INCREMENT_FAILED
   \<and> count_list
        (trace (snd (snd (IndiciumEngineCreate
           ((example_platform 200 22 21 0)\<lparr>os_GetModuleHandleEx := False\<rparr>) 128 2
           example_config True
           (snd (snd (IndiciumEngineCreate (example_platform 100 12 11 0) 128 1 example_config
                        True initial_state)))))))
        Ev_DetourAttach = 2
   \<and> fst (IndiciumEngineCreate (example_platform 200 22 21 0) 128 2 example_config True
          (snd (snd (IndiciumEngineCreate (example_platform 100 12 11 0) 128 1 example_config
                       True initial_state)))) = Faults spdlog_ex
   \<and> count_list
        (trace (snd (snd (IndiciumEngineCreate (example_platform 200 22 21 0) 128 2
           example_config True
           (snd (snd (IndiciumEngineCreate (example_platform 100 12 11 0) 128 1 example_config
                        True initial_state)))))))
        Ev_DetourAttach = 2"
  by (simp add: IndiciumEngineCreate_def Let_def emit_def attach_calls_def logging_calls_def
        initial_state_def example_platform_def example_config_def)

text \<open>
  C6, as the code has it. In the wait step of an instance, a status that is none of
  \<open>WAIT_ABANDONED\<close>, \<open>WAIT_OBJECT_0\<close>, \<open>WAIT_TIMEOUT\<close>, \<open>WAIT_FAILED\<close> makes the code call
  \<open>TerminateThread\<close> on the worker thread and then log an error; the status \<open>WAIT_FAILED\<close>
  makes it log an error and nothing else: the thread is not terminated.
\<close>

theorem wait_step_failed_or_unrecognized:
  "(os_WaitForSingleObject pf (EngineThread e) \<notin>
       {WAIT_ABANDONED, WAIT_OBJECT_0, WAIT_TIMEOUT, WAIT_FAILED} \<longrightarrow>
      wait_step pf e =
        [Ev_WaitForSingleObject (EngineThread e) 3000,
         Ev_TerminateThread (EngineThread e) 0,
         Ev_log ''process'' error ''Unexpected return value, terminating'' []])
   \<and> (os_WaitForSingleObject pf (EngineThread e) = WAIT_FAILED \<longrightarrow>
      wait_step pf e =
        [Ev_WaitForSingleObject (EngineThread e) 3000,
         Ev_log ''process'' error ''Unknown error, host process might crash'' []])"
  by (simp add: wait_step_def wait_switch_def WAIT_FAILED_def WAIT_TIMEOUT_def
        WAIT_OBJECT_0_def WAIT_ABANDONED_def)

theorem wait_step_failed_or_unrecognized_witness:
  "os_WaitForSingleObject (example_platform 0 0 0 5) (EngineThread engine_A) \<notin>
       {WAIT_ABANDONED, WAIT_OBJECT_0, WAIT_TIMEOUT, WAIT_FAILED}
   \<and> wait_step (example_platform 0 0 0 5) engine_A =
        [Ev_WaitForSingleObject 11 3000, Ev_TerminateThread 11 0,
         Ev_log ''process'' error ''Unexpected return value, terminating'' []]
   \<and> os_WaitForSingleObject (example_platform 0 0 0 WAIT_FAILED) (EngineThread engine_A)
       = WAIT_FAILED
   \<and> wait_step (example_platform 0 0 0 WAIT_FAILED) engine_A =
        [Ev_WaitForSingleObject 11 3000,
         Ev_log ''process'' error ''Unknown error, host process might crash'' []]"
proof -
  have th: "EngineThread engine_A = 11"
    by (simp add: engine_A_def zero_engine_def)
  have a: "os_WaitForSingleObject (example_platform 0 0 0 5) (EngineThread engine_A) \<notin>
       {WAIT_ABANDONED, WAIT_OBJECT_0, WAIT_TIMEOUT, WAIT_FAILED}"
    by (simp add: example_platform_def WAIT_FAILED_def WAIT_TIMEOUT_def
          WAIT_OBJECT_0_def WAIT_ABANDONED_def)
  have b: "os_WaitForSingleObject (example_platform 0 0 0 WAIT_FAILED) (EngineThread engine_A)
       = WAIT_FAILED"
    by (simp add: example_platform_def)
  from wait_step_failed_or_unrecognized [of "example_platform 0 0 0 5" engine_A]
       wait_step_failed_or_unrecognized [of "example_platform 0 0 0 WAIT_FAILED" engine_A]
       a b
  show ?thesis
    by (simp add: th)
qed

text \<open>
  C6 as stated fails: when the wait on the thread of an instance ends with \<open>WAIT_FAILED\<close>,
  the wait step logs an error but makes no call of \<open>TerminateThread\<close>.
\<close>

theorem wait_failed_not_terminated:
  "os_WaitForSingleObject (example_platform 0 0 0 WAIT_FAILED) (EngineThread engine_A)
     = WAIT_FAILED
   \<and> wait_step (example_platform 0 0 0 WAIT_FAILED) engine_A =
        [Ev_WaitForSingleObject 11 3000,
         Ev_log ''process'' error ''Unknown error, host process might crash'' []]
   \<and> filter is_TerminateThread (wait_step (example_platform 0 0 0 WAIT_FAILED) engine_A) = []"
  by (simp add: wait_step_def wait_switch_def example_platform_def engine_A_def
        zero_engine_def WAIT_FAILED_def WAIT_TIMEOUT_def WAIT_OBJECT_0_def WAIT_ABANDONED_def)

subsection \<open>Custom context\<close>

text \<open>
  C4 fails on the code. The instance at 100 holds a custom context at 500, a live block
  of three bytes. IndiciumEngineAllocCustomContext with a two-byte payload, \<open>malloc\<close>
  answering 600, succeeds and stores 600 with the payload copied in, but calls \<open>free\<close>
  for nothing: the calls are \<open>malloc\<close> and \<open>memcpy\<close> only, and the block at 500 is
  still live with its content.
\<close>

theorem alloc_leaves_old_context_unfreed:
  "CustomContext (engines running_instance 100) = 500
   \<and> heap running_instance 500 = Some [1, 2, 3]
   \<and> fst (IndiciumEngineAllocCustomContext (example_platform 600 0 0 0) 100 [9, 9] 2
            running_instance) = INDICIUM_ERROR_NONE
   \<and> trace (snd (IndiciumEngineAllocCustomContext (example_platform 600 0 0 0) 100 [9, 9] 2
                   running_instance))
       = [Ev_malloc 2 600, Ev_memcpy 600 [9, 9] 2]
   \<and> heap (snd (IndiciumEngineAllocCustomContext (example_platform 600 0 0 0) 100 [9, 9] 2
                  running_instance)) 500 = Some [1, 2, 3]
   \<and> heap (snd (IndiciumEngineAllocCustomContext (example_platform 600 0 0 0) 100 [9, 9] 2
                  running_instance)) 600 = Some [9, 9]
   \<and> CustomContext (engines (snd (IndiciumEngineAllocCustomContext
        (example_platform 600 0 0 0) 100 [9, 9] 2 running_instance)) 100) = 600"
  by (simp add: IndiciumEngineAllocCustomContext_def IndiciumEngineFreeCustomContext_def
        c_malloc_def c_memcpy_def c_free_def emit_def Let_def running_instance_def
        engine_A_def zero_engine_def example_platform_def)

text \<open>
  C7. For a non-null instance, a payload of at least \<open>ContextSize\<close> readable bytes, and a
  call of IndiciumEngineAllocCustomContext that returns \<open>INDICIUM_ERROR_NONE\<close>:
  IndiciumEngineGetCustomContext then returns a non-null pointer to a live block that holds
  exactly the first \<open>ContextSize\<close> bytes of the payload. Such a call is one in which
  \<open>malloc\<close> answered with a non-null pointer.
\<close>

theorem alloc_then_get:
  assumes "Engine \<noteq> 0"
    and "ContextSize \<le> length Context"
    and "fst (IndiciumEngineAllocCustomContext pf Engine Context ContextSize s)
         = INDICIUM_ERROR_NONE"
  shows "IndiciumEngineGetCustomContext Engine
           (snd (IndiciumEngineAllocCustomContext pf Engine Context ContextSize s)) \<noteq> 0
    \<and> heap (snd (IndiciumEngineAllocCustomContext pf Engine Context ContextSize s))
         (IndiciumEngineGetCustomContext Engine
            (snd (IndiciumEngineAllocCustomContext pf Engine Context ContextSize s)))
       = Some (take ContextSize Context)
    \<and> length (take ContextSize Context) = ContextSize
    \<and> os_malloc pf \<noteq> 0"
proof -
  have ok: "os_malloc pf \<noteq> 0"
  proof
    assume "os_malloc pf = 0"
    with assms(1) have "fst (IndiciumEngineAllocCustomContext pf Engine Context ContextSize s)
        = INDICIUM_ERROR_CONTEXT_ALLOCATION_FAILED"
      by (simp add: IndiciumEngineAllocCustomContext_def c_malloc_def Let_def)
    with assms(3) show False by simp
  qed
  with assms(1,2) show ?thesis
    by (simp add: IndiciumEngineAllocCustomContext_def IndiciumEngineGetCustomContext_def
          IndiciumEngineFreeCustomContext_def c_malloc_def c_memcpy_def emit_def Let_def)
qed

theorem alloc_then_get_witness:
  "(100::nat) \<noteq> 0 \<and> (2::nat) \<le> length [7, 8, 9 :: byte]
   \<and> fst (IndiciumEngineAllocCustomContext (example_platform 600 0 0 0) 100 [7, 8, 9] 2
            running_instance) = INDICIUM_ERROR_NONE
   \<and> IndiciumEngineGetCustomContext 100
        (snd (IndiciumEngineAllocCustomContext (example_platform 600 0 0 0) 100 [7, 8, 9] 2
                running_instance)) = 600
   \<and> heap (snd (IndiciumEngineAllocCustomContext (example_platform 600 0 0 0) 100 [7, 8, 9] 2
                  running_instance)) 600 = Some [7, 8]"
proof -
  have ok: "fst (IndiciumEngineAllocCustomContext (example_platform 600 0 0 0) 100 [7, 8, 9] 2
            running_instance) = INDICIUM_ERROR_NONE"
    by (simp add: IndiciumEngineAllocCustomContext_def c_malloc_def Let_def
          example_platform_def)
  have got: "IndiciumEngineGetCustomContext 100
        (snd (IndiciumEngineAllocCustomContext (example_platform 600 0 0 0) 100 [7, 8, 9] 2
                running_instance)) = 600"
    by (simp add: IndiciumEngineAllocCustomContext_def IndiciumEngineGetCustomContext_def
          c_malloc_def c_memcpy_def emit_def Let_def example_platform_def)
  have "take 2 [7, 8, 9 :: byte] = [7, 8]"
    by (simp add: numeral_2_eq_2)
  with alloc_then_get [of 100 2 "[7, 8, 9]" "example_platform 600 0 0 0" running_instance] ok got
  show ?thesis
    by simp
qed

text \<open>
  C9. For a non-null instance whose \<open>CustomContext\<close> is a non-null pointer \<open>p\<close>,
  IndiciumEngineFreeCustomContext returns \<open>INDICIUM_ERROR_NONE\<close>, calls \<open>free\<close> on \<open>p\<close>
  (the block is no longer live) and leaves the \<open>CustomContext\<close> member as it was, so that
  IndiciumEngineGetCustomContext still returns \<open>p\<close>, and a second
  IndiciumEngineFreeCustomContext calls \<open>free\<close> on \<open>p\<close> again: the second call changes the
  state reached by the first.
\<close>

theorem free_keeps_pointer:
  assumes "Engine \<noteq> 0"
    and "CustomContext (engines s Engine) = p"
    and "p \<noteq> 0"
  shows "fst (IndiciumEngineFreeCustomContext Engine s) = INDICIUM_ERROR_NONE
    \<and> trace (snd (IndiciumEngineFreeCustomContext Engine s)) = trace s @ [Ev_free p]
    \<and> heap (snd (IndiciumEngineFreeCustomContext Engine s)) p = None
    \<and> engines (snd (IndiciumEngineFreeCustomContext Engine s)) = engines s
    \<and> CustomContext (engines (snd (IndiciumEngineFreeCustomContext Engine s)) Engine) = p
    \<and> IndiciumEngineGetCustomContext Engine (snd (IndiciumEngineFreeCustomContext Engine s)) = p
    \<and> fst (IndiciumEngineFreeCustomContext Engine
             (snd (IndiciumEngineFreeCustomContext Engine s))) = INDICIUM_ERROR_NONE
    \<and> trace (snd (IndiciumEngineFreeCustomContext Engine
                    (snd (IndiciumEngineFreeCustomContext Engine s))))
        = trace s @ [Ev_free p, Ev_free p]
    \<and> snd (IndiciumEngineFreeCustomContext Engine
             (snd (IndiciumEngineFreeCustomContext Engine s)))
        \<noteq> snd (IndiciumEngineFreeCustomContext Engine s)"
proof -
  let ?s1 = "snd (IndiciumEngineFreeCustomContext Engine s)"
  let ?s2 = "snd (IndiciumEngineFreeCustomContext Engine ?s1)"
  have s1: "?s1 = c_free p s"
    using assms by (simp add: IndiciumEngineFreeCustomContext_def)
  have mem: "engines (c_free p s) = engines s"
    by (simp add: c_free_def emit_def)
  have mem1: "engines ?s1 = engines s"
    by (simp add: s1 mem)
  have s2: "?s2 = c_free p ?s1"
    using assms by (simp add: IndiciumEngineFreeCustomContext_def mem)
  have t1: "trace ?s1 = trace s @ [Ev_free p]"
    by (simp add: s1 c_free_def emit_def)
  have t2: "trace ?s2 = trace s @ [Ev_free p, Ev_free p]"
    by (simp add: s2 t1 c_free_def emit_def)
  have differ: "?s2 \<noteq> ?s1"
  proof
    assume "?s2 = ?s1"
    then have "trace ?s2 = trace ?s1" by simp
    with t1 t2 show False by simp
  qed
  have r1: "fst (IndiciumEngineFreeCustomContext Engine s) = INDICIUM_ERROR_NONE"
    using assms by (simp add: IndiciumEngineFreeCustomContext_def)
  have r2: "fst (IndiciumEngineFreeCustomContext Engine ?s1) = INDICIUM_ERROR_NONE"
    using assms by (simp add: IndiciumEngineFreeCustomContext_def mem)
  have h1: "heap ?s1 p = None"
    by (simp add: s1 c_free_def emit_def)
  have g1: "IndiciumEngineGetCustomContext Engine ?s1 = p"
    using assms by (simp add: IndiciumEngineGetCustomContext_def mem1)
  have c1: "CustomContext (engines ?s1 Engine) = p"
    using assms by (simp add: mem1)
  from r1 t1 h1 mem1 c1 g1 r2 t2 differ show ?thesis
    by blast
qed

theorem free_keeps_pointer_witness:
  "(100::nat) \<noteq> 0 \<and> CustomContext (engines running_instance 100) = 500 \<and> (500::nat) \<noteq> 0
   \<and> heap running_instance 500 = Some [1, 2, 3]
   \<and> heap (snd (IndiciumEngineFreeCustomContext 100 running_instance)) 500 = None
   \<and> IndiciumEngineGetCustomContext 100 (snd (IndiciumEngineFreeCustomContext 100 running_instance))
       = 500
   \<and> trace (snd (IndiciumEngineFreeCustomContext 100
                   (snd (IndiciumEngineFreeCustomContext 100 running_instance))))
       = [Ev_free 500, Ev_free 500]"
proof -
  have ctx: "CustomContext (engines running_instance 100) = 500"
    by (simp add: running_instance_def engine_A_def)
  have blk: "heap running_instance 500 = Some [1, 2, 3]" and tr: "trace running_instance = []"
    by (simp_all add: running_instance_def)
  from free_keeps_pointer [of 100 running_instance 500] ctx blk tr show ?thesis
    by simp
qed

text \<open>
  C10. For a non-null instance, when \<open>malloc\<close> answers with the null pointer,
  IndiciumEngineAllocCustomContext returns \<open>INDICIUM_ERROR_CONTEXT_ALLOCATION_FAILED\<close>
  after it has stored that null pointer in \<open>CustomContext\<close>: IndiciumEngineGetCustomContext
  returns null afterwards. The only outside call made is the \<open>malloc\<close>; nothing is freed,
  and every block that was live before is live after, the one the instance pointed to
  included.
\<close>

theorem alloc_failure_overwrites_pointer:
  assumes "Engine \<noteq> 0"
    and "os_malloc pf = 0"
  shows "fst (IndiciumEngineAllocCustomContext pf Engine Context ContextSize s)
         = INDICIUM_ERROR_CONTEXT_ALLOCATION_FAILED
    \<and> CustomContext (engines (snd (IndiciumEngineAllocCustomContext pf Engine Context
                                     ContextSize s)) Engine) = 0
    \<and> IndiciumEngineGetCustomContext Engine
        (snd (IndiciumEngineAllocCustomContext pf Engine Context ContextSize s)) = 0
    \<and> trace (snd (IndiciumEngineAllocCustomContext pf Engine Context ContextSize s))
        = trace s @ [Ev_malloc ContextSize 0]
    \<and> heap (snd (IndiciumEngineAllocCustomContext pf Engine Context ContextSize s)) = heap s"
  using assms
  by (simp add: IndiciumEngineAllocCustomContext_def IndiciumEngineFreeCustomContext_def
        IndiciumEngineGetCustomContext_def c_malloc_def emit_def Let_def)

theorem alloc_failure_overwrites_pointer_witness:
  "(100::nat) \<noteq> 0 \<and> os_malloc (example_platform 0 0 0 0) = 0
   \<and> CustomContext (engines running_instance 100) = 500
   \<and> fst (IndiciumEngineAllocCustomContext (example_platform 0 0 0 0) 100 [9, 9] 2
            running_instance) = INDICIUM_ERROR_CONTEXT_ALLOCATION_FAILED
   \<and> IndiciumEngineGetCustomContext 100
        (snd (IndiciumEngineAllocCustomContext (example_platform 0 0 0 0) 100 [9, 9] 2
                running_instance)) = 0
   \<and> trace (snd (IndiciumEngineAllocCustomContext (example_platform 0 0 0 0) 100 [9, 9] 2
                   running_instance)) = [Ev_malloc 2 0]
   \<and> heap (snd (IndiciumEngineAllocCustomContext (example_platform 0 0 0 0) 100 [9, 9] 2
                  running_instance)) 500 = Some [1, 2, 3]"
proof -
  have m: "os_malloc (example_platform 0 0 0 0) = 0"
    by (simp add: example_platform_def)
  have ctx: "CustomContext (engines running_instance 100) = 500"
    by (simp add: running_instance_def engine_A_def)
  have blk: "heap running_instance 500 = Some [1, 2, 3]" and tr: "trace running_instance = []"
    by (simp_all add: running_instance_def)
  from alloc_failure_overwrites_pointer
         [of 100 "example_platform 0 0 0 0" "[9, 9]" 2 running_instance] m ctx blk tr
  show ?thesis
    by simp
qed

subsection \<open>Dispatch\<close>

text \<open>
  C8. Each of the macros \<open>INVOKE_D3D9_CALLBACK\<close>, \<open>INVOKE_D3D10_CALLBACK\<close>,
  \<open>INVOKE_D3D11_CALLBACK\<close>, \<open>INVOKE_D3D12_CALLBACK\<close> and \<open>INVOKE_ARC_CALLBACK\<close> reads the
  named slot of its own table in the engine: when the slot is null, the state is unchanged
  (no call is made); when it is not, exactly one call is made, through the pointer in the
  slot, with the arguments given.
\<close>

theorem invoke_callback_dispatch:
  "(EventsD3D9 (engines s engine) callback = 0 \<longrightarrow>
      INVOKE_D3D9_CALLBACK engine callback args s = s)
   \<and> (EventsD3D9 (engines s engine) callback \<noteq> 0 \<longrightarrow>
      INVOKE_D3D9_CALLBACK engine callback args s
      = s\<lparr>trace := trace s @ [Ev_call (EventsD3D9 (engines s engine) callback) args]\<rparr>)
   \<and> (EventsD3D10 (engines s engine) callback = 0 \<longrightarrow>
      INVOKE_D3D10_CALLBACK engine callback args s = s)
   \<and> (EventsD3D10 (engines s engine) callback \<noteq> 0 \<longrightarrow>
      INVOKE_D3D10_CALLBACK engine callback args s
      = s\<lparr>trace := trace s @ [Ev_call (EventsD3D10 (engines s engine) callback) args]\<rparr>)
   \<and> (EventsD3D11 (engines s engine) callback = 0 \<longrightarrow>
      INVOKE_D3D11_CALLBACK engine callback args s = s)
   \<and> (EventsD3D11 (engines s engine) callback \<noteq> 0 \<longrightarrow>
      INVOKE_D3D11_CALLBACK engine callback args s
      = s\<lparr>trace := trace s @ [Ev_call (EventsD3D11 (engines s engine) callback) args]\<rparr>)
   \<and> (EventsD3D12 (engines s engine) callback = 0 \<longrightarrow>
      INVOKE_D3D12_CALLBACK engine callback args s = s)
   \<and> (EventsD3D12 (engines s engine) callback \<noteq> 0 \<longrightarrow>
      INVOKE_D3D12_CALLBACK engine callback args s
      = s\<lparr>trace := trace s @ [Ev_call (EventsD3D12 (engines s engine) callback) args]\<rparr>)
   \<and> (EventsARC (engines s engine) callback = 0 \<longrightarrow>
      INVOKE_ARC_CALLBACK engine callback args s = s)
   \<and> (EventsARC (engines s engine) callback \<noteq> 0 \<longrightarrow>
      INVOKE_ARC_CALLBACK engine callback args s
      = s\<lparr>trace := trace s @ [Ev_call (EventsARC (engines s engine) callback) args]\<rparr>)"
  by (simp add: INVOKE_D3D9_CALLBACK_def INVOKE_D3D10_CALLBACK_def INVOKE_D3D11_CALLBACK_def
        INVOKE_D3D12_CALLBACK_def INVOKE_ARC_CALLBACK_def invoke_slot_def emit_def)

theorem invoke_callback_dispatch_witness:
  "EventsD3D9 (engines running_instance 100) ''EvtIndiciumD3D9PreEndScene'' \<noteq> 0
   \<and> INVOKE_D3D9_CALLBACK 100 ''EvtIndiciumD3D9PreEndScene'' [55] running_instance
       = running_instance\<lparr>trace := [Ev_call 700 [55]]\<rparr>
   \<and> EventsD3D9 (engines running_instance 100) ''EvtIndiciumD3D9PostEndScene'' = 0
   \<and> INVOKE_D3D9_CALLBACK 100 ''EvtIndiciumD3D9PostEndScene'' [55] running_instance
       = running_instance
   \<and> EventsD3D11 (engines running_instance 100) ''EvtIndiciumD3D11PrePresent'' = 0
   \<and> INVOKE_D3D11_CALLBACK 100 ''EvtIndiciumD3D11PrePresent'' [55] running_instance
       = running_instance"
proof -
  have full: "EventsD3D9 (engines running_instance 100) ''EvtIndiciumD3D9PreEndScene'' = 700"
    by (simp add: running_instance_def engine_A_def)
  have empty9: "EventsD3D9 (engines running_instance 100) ''EvtIndiciumD3D9PostEndScene'' = 0"
    by (simp add: running_instance_def engine_A_def)
  have empty11: "EventsD3D11 (engines running_instance 100) ''EvtIndiciumD3D11PrePresent'' = 0"
    by (simp add: running_instance_def engine_A_def zero_engine_def no_callbacks_def)
  have tr: "trace running_instance = []"
    by (simp add: running_instance_def)
  from invoke_callback_dispatch [of running_instance 100 "''EvtIndiciumD3D9PreEndScene''" "[55]"]
       invoke_callback_dispatch [of running_instance 100 "''EvtIndiciumD3D9PostEndScene''" "[55]"]
       invoke_callback_dispatch [of running_instance 100 "''EvtIndiciumD3D11PrePresent''" "[55]"]
       full empty9 empty11 tr
  show ?thesis
    by simp
qed

end
